theory Spec2Isabelle
  imports Complex_Main
begin

section \<open>Python values and the builtins the code applies to them\<close>

text \<open>
  Exceptions are values. Every constructor stands for a subclass of Python's
  \<open>Exception\<close>, so each of them is caught by \<open>except Exception\<close>.
  \<open>DatabaseError\<close> stands for the driver's \<open>psycopg2.Error\<close>, \<open>OtherError\<close> for any
  further subclass (an SDK error).
\<close>

datatype pyexn =
    TypeError
  | ValueError
  | OverflowError
  | DatabaseError
  | PostgreSQLConnectionError
  | PostgreSQLDataError
  | OtherError

text \<open>
  A cell of a raw row, as the JSON deserialiser delivers it: null, a boolean, an
  integer, a float or a string. Floats are modelled as reals (no rounding, no inf,
  no nan). A float cell carries the text \<open>str\<close> prints for it, which is not
  computed here.
\<close>

datatype pyval =
    PNone
  | PBool bool
  | PInt int
  | PFloat real string
  | PStr string

text \<open>Truth value testing, as in \<open>if x\<close>.\<close>

fun truthy :: "pyval \<Rightarrow> bool" where
  "truthy PNone = False"
| "truthy (PBool b) = b"
| "truthy (PInt i) = (i \<noteq> 0)"
| "truthy (PFloat r s) = (r \<noteq> 0)"
| "truthy (PStr s) = (s \<noteq> [])"

text \<open>Decimal digits of a natural number, for \<open>str\<close> of an integer.\<close>

fun digits_of :: "nat \<Rightarrow> string" where
  "digits_of n =
     (if n < 10 then [''0123456789'' ! n]
      else digits_of (n div 10) @ [''0123456789'' ! (n mod 10)])"

declare digits_of.simps [simp del]

fun py_str :: "pyval \<Rightarrow> string" where
  "py_str PNone = ''None''"
| "py_str (PBool b) = (if b then ''True'' else ''False'')"
| "py_str (PInt i) = (if i < 0 then CHR ''-'' # digits_of (nat (- i)) else digits_of (nat i))"
| "py_str (PFloat r s) = s"
| "py_str (PStr s) = s"

text \<open>
  \<open>float\<close> applied to a string. The grammar covered is the plain decimal literal:
  an optional sign, digits, and an optional fraction. Anything else is a
  \<open>ValueError\<close> here; exponents, underscores, surrounding blanks, \<open>inf\<close> and
  \<open>nan\<close>, which CPython also accepts, are outside the model.
\<close>

definition is_digit :: "char \<Rightarrow> bool" where
  "is_digit c = (c \<in> set ''0123456789'')"

definition digit_value :: "char \<Rightarrow> nat" where
  "digit_value c = of_char c - 48"

definition digits_value :: "string \<Rightarrow> nat" where
  "digits_value ds = foldl (\<lambda>n c. 10 * n + digit_value c) 0 ds"

definition parse_unsigned :: "string \<Rightarrow> real option" where
  "parse_unsigned s =
     (let ip = takeWhile is_digit s; rest = dropWhile is_digit s
      in if rest = [] then (if ip = [] then None else Some (real (digits_value ip)))
         else if hd rest = CHR ''.'' \<and> list_all is_digit (tl rest) \<and> (ip \<noteq> [] \<or> tl rest \<noteq> [])
         then Some (real (digits_value ip)
                    + real (digits_value (tl rest)) / 10 ^ length (tl rest))
         else None)"

definition float_of_str :: "string \<Rightarrow> real option" where
  "float_of_str s =
     (case s of
        [] \<Rightarrow> None
      | c # cs \<Rightarrow>
          if c = CHR ''-'' then map_option uminus (parse_unsigned cs)
          else if c = CHR ''+'' then parse_unsigned cs
          else parse_unsigned s)"

text \<open>
  \<open>float(x)\<close>: \<open>TypeError\<close> on \<open>None\<close>, \<open>OverflowError\<close> on an integer that
  rounds beyond the largest double, \<open>ValueError\<close> on a string that is no number.
\<close>

fun py_float :: "pyval \<Rightarrow> pyexn + real" where
  "py_float PNone = Inl TypeError"
| "py_float (PBool b) = Inr (if b then 1 else 0)"
| "py_float (PInt i) =
     (if \<bar>i\<bar> < 2 ^ 1024 - 2 ^ 970 then Inr (real_of_int i) else Inl OverflowError)"
| "py_float (PFloat r s) = Inr r"
| "py_float (PStr s) = (case float_of_str s of None \<Rightarrow> Inl ValueError | Some r \<Rightarrow> Inr r)"

section \<open>Cost Response Normalizer\<close>

text \<open>
  The dictionaries \<open>process_cost_response\<close> appends: one shape per grouping arity.
  \<open>date\<close> is \<open>None\<close> when the row's first element is falsy.
\<close>

datatype cost_row =
    SingleDim (date: "string option") (dimension: string) (cost_amount: real)
  | TwoDim (date: "string option") (region_name: string) (service_name: string)
      (cost_amount: real)

text \<open>
  What \<open>process_cost_response\<close> is handed: the SDK's \<open>QueryResult\<close>, whose \<open>rows\<close>
  attribute is a list of rows or \<open>None\<close>, or the dictionary \<open>{'rows': []}\<close> that
  \<open>get_cost_data\<close> returns after a failed request; a dictionary has no \<open>rows\<close>
  attribute.
\<close>

datatype response =
    QueryResult "pyval list list option"
  | RowsDict

text \<open>
  The three conversions of the loop body:
  \<^verbatim>\<open>date_str = str(row[0]) if row[0] else None\<close>,
  \<^verbatim>\<open>cost_amount = float(row[-1]) if row[-1] else 0.0\<close> (which may raise) and
  \<^verbatim>\<open>str(x) if x else 'Unknown'\<close> for a dimension, region or service cell.
\<close>

definition row_date_str :: "pyval \<Rightarrow> string option" where
  "row_date_str x = (if truthy x then Some (py_str x) else None)"

definition row_cost_amount :: "pyval \<Rightarrow> pyexn + real" where
  "row_cost_amount x = (if truthy x then py_float x else Inr 0)"

definition dimension_name :: "pyval \<Rightarrow> string" where
  "dimension_name x = (if truthy x then py_str x else ''Unknown'')"

text \<open>
  The body of the \<open>for row in response.rows\<close> loop: the records one row appends,
  or the exception it raises.
\<close>

definition process_row :: "pyval list \<Rightarrow> pyexn + cost_row list" where
  "process_row row =
     (if length row \<ge> 3 then
        let date_str = row_date_str (row ! 0)
        in case row_cost_amount (last row) of
             Inl e \<Rightarrow> Inl e
           | Inr cost \<Rightarrow>
               if length row = 3 then
                 Inr [SingleDim date_str (dimension_name (row ! 1)) cost]
               else if length row \<ge> 4 then
                 Inr [TwoDim date_str (dimension_name (row ! 1)) (dimension_name (row ! 2)) cost]
               else Inr []
      else Inr [])"

text \<open>
  The loop inside the \<open>try\<close>: \<open>rows\<close> is the list built so far. An exception leaves
  the loop; the handler logs it, and \<open>rows\<close> keeps what was appended before.
  The result is the final \<open>rows\<close> and the exception logged, if any.
\<close>

fun process_rows :: "cost_row list \<Rightarrow> pyval list list \<Rightarrow> cost_row list \<times> pyexn option" where
  "process_rows rows [] = (rows, None)"
| "process_rows rows (row # rest) =
     (case process_row row of
        Inl e \<Rightarrow> (rows, Some e)
      | Inr out \<Rightarrow> process_rows (rows @ out) rest)"

definition process_cost_response_run :: "response \<Rightarrow> cost_row list \<times> pyexn option" where
  "process_cost_response_run response =
     (case response of
        RowsDict \<Rightarrow> ([], None)
      | QueryResult None \<Rightarrow> ([], None)
      | QueryResult (Some rs) \<Rightarrow> if rs = [] then ([], None) else process_rows [] rs)"

text \<open>The list \<open>process_cost_response\<close> returns; it never raises.\<close>

definition process_cost_response :: "response \<Rightarrow> cost_row list" where
  "process_cost_response response = fst (process_cost_response_run response)"

text \<open>The exception the handler of \<open>process_cost_response\<close> logged, if any.\<close>

definition process_cost_response_logged :: "response \<Rightarrow> pyexn option" where
  "process_cost_response_logged response = snd (process_cost_response_run response)"

section \<open>Metric Policy Table\<close>

text \<open>
  One entry of the table: the dictionary keys \<open>metric\<close>, \<open>stat\<close>, \<open>threshold\<close> and
  \<open>unit\<close>. Thresholds are written as integers or floats in the source and compared
  with float readings; they are reals here.
\<close>

datatype metric_config =
  MetricConfig (cfg_metric: string) (cfg_stat: string) (cfg_threshold: real) (cfg_unit: string)

definition default_metrics :: "metric_config list" where
  "default_metrics =
     [MetricConfig ''Requests'' ''Sum'' 10 ''Count'',
      MetricConfig ''Errors'' ''Sum'' 1 ''Count'']"

definition service_metrics :: "(string \<times> metric_config list) list" where
  "service_metrics =
     [(''Microsoft.Compute/virtualMachines'',
         [MetricConfig ''Percentage CPU'' ''Average'' 10 ''Percent'',
          MetricConfig ''Network In'' ''Average'' 1000000 ''Bytes'',
          MetricConfig ''Disk Read Bytes'' ''Average'' 1000000 ''Bytes'']),
      (''Microsoft.DBforPostgreSQL/servers'',
         [MetricConfig ''cpu_percent'' ''Average'' 15 ''Percent'',
          MetricConfig ''connections_active'' ''Average'' 5 ''Count'',
          MetricConfig ''io_consumption_percent'' ''Average'' 10 ''Percent'']),
      (''Microsoft.Storage/storageAccounts'',
         [MetricConfig ''Transactions'' ''Sum'' 1000 ''Count'',
          MetricConfig ''UsedCapacity'' ''Average'' 1000000000 ''Bytes'']),
      (''Microsoft.Web/sites'',
         [MetricConfig ''HttpRequests'' ''Sum'' 100 ''Count'',
          MetricConfig ''AverageResponseTime'' ''Average'' 1000 ''Milliseconds'']),
      (''Microsoft.ContainerService/managedClusters'',
         [MetricConfig ''cpuUsageNanoCores'' ''Average'' 1000000000 ''NanoCores'',
          MetricConfig ''memoryWorkingSetBytes'' ''Average'' 1000000000 ''Bytes'']),
      (''Microsoft.Network/loadBalancers'',
         [MetricConfig ''ByteCount'' ''Sum'' 1000000 ''Bytes'',
          MetricConfig ''PacketCount'' ''Sum'' 1000 ''Count''])]"

text \<open>\<^verbatim>\<open>service_metrics.get(resource_type, default_metrics)\<close>\<close>

definition get_primary_metrics_for_service :: "string \<Rightarrow> metric_config list" where
  "get_primary_metrics_for_service resource_type =
     (case map_of service_metrics resource_type of
        None \<Rightarrow> default_metrics
      | Some metrics \<Rightarrow> metrics)"

section \<open>Calendar dates\<close>

text \<open>
  \<open>datetime.date\<close>: a year from 1 to 9999, a month, and a day that exists in that
  month. \<open>replace\<close> raises \<open>ValueError\<close> when the date it builds does not exist;
  adding a day raises \<open>OverflowError\<close> past the last date.
\<close>

record pydate =
  year :: int
  month :: int
  day :: int

definition is_leap :: "int \<Rightarrow> bool" where
  "is_leap y = (y mod 4 = 0 \<and> (y mod 100 \<noteq> 0 \<or> y mod 400 = 0))"

definition days_in_month :: "int \<Rightarrow> int \<Rightarrow> int" where
  "days_in_month y m =
     (if m = 2 then (if is_leap y then 29 else 28)
      else [31, 28, 31, 30, 31, 30, 31, 31, 30, 31, 30, 31] ! nat (m - 1))"

definition valid_date :: "pydate \<Rightarrow> bool" where
  "valid_date d =
     (1 \<le> year d \<and> year d \<le> 9999 \<and> 1 \<le> month d \<and> month d \<le> 12 \<and>
      1 \<le> day d \<and> day d \<le> days_in_month (year d) (month d))"

definition date_replace :: "pydate \<Rightarrow> int option \<Rightarrow> int option \<Rightarrow> int option \<Rightarrow> pyexn + pydate" where
  "date_replace d y m dd =
     (let r = \<lparr>year = (case y of None \<Rightarrow> year d | Some v \<Rightarrow> v),
               month = (case m of None \<Rightarrow> month d | Some v \<Rightarrow> v),
               day = (case dd of None \<Rightarrow> day d | Some v \<Rightarrow> v)\<rparr>
      in if valid_date r then Inr r else Inl ValueError)"

text \<open>\<^verbatim>\<open>d + datetime.timedelta(days=1)\<close>\<close>

definition date_add_day :: "pydate \<Rightarrow> pyexn + pydate" where
  "date_add_day d =
     (if day d < days_in_month (year d) (month d) then Inr (d\<lparr>day := day d + 1\<rparr>)
      else if month d < 12 then Inr \<lparr>year = year d, month = month d + 1, day = 1\<rparr>
      else if year d < 9999 then Inr \<lparr>year = year d + 1, month = 1, day = 1\<rparr>
      else Inl OverflowError)"

section \<open>Run Orchestrator: the previous-month window\<close>

text \<open>
  The block of \<open>main\<close> under the comment \<open>Last Month Cost: Complete previous month\<close>:
  \<open>last_month_start\<close> and \<open>last_month_end\<close> from \<open>today\<close>, or the exception that a
  \<open>replace\<close> raises.
\<close>

definition last_month_window :: "pydate \<Rightarrow> pyexn + pydate \<times> pydate" where
  "last_month_window today =
     (if month today = 1 then
        case date_replace today (Some (year today - 1)) (Some 12) (Some 1) of
          Inl e \<Rightarrow> Inl e
        | Inr last_month_start \<Rightarrow>
            (case date_replace today (Some (year today - 1)) (Some 12) (Some 31) of
               Inl e \<Rightarrow> Inl e
             | Inr last_month_end \<Rightarrow> Inr (last_month_start, last_month_end))
      else
        case date_replace today None (Some (month today - 1)) (Some 1) of
          Inl e \<Rightarrow> Inl e
        | Inr last_month_start \<Rightarrow>
            let last_day =
                 (if month today - 1 \<in> set [1, 3, 5, 7, 8, 10, 12] then 31
                  else if month today - 1 \<in> set [4, 6, 9, 11] then 30
                  else (let y = year today
                        in if (y mod 4 = 0 \<and> y mod 100 \<noteq> 0) \<or> y mod 400 = 0 then 29
                           else 28))
            in (case date_replace today None (Some (month today - 1)) (Some last_day) of
                  Inl e \<Rightarrow> Inl e
                | Inr last_month_end \<Rightarrow> Inr (last_month_start, last_month_end)))"

section \<open>Metric Statistics Fetcher\<close>

text \<open>
  What \<open>monitor_client.metrics.list\<close> returns: an object whose \<open>value\<close> is a list of
  metrics (or \<open>None\<close>), each with a list of time series, each with a list of data
  points, each with a \<open>value\<close> that may be \<open>None\<close>. Sample values are reals.
\<close>

datatype data_point = DataPoint (dp_value: "real option")

datatype time_series = TimeSeries (ts_data: "data_point list option")

datatype metric = Metric (timeseries: "time_series list option")

datatype metrics_data = MetricsData (md_value: "metric list option")

text \<open>
  The monitor client, as a function of the arguments of \<open>metrics.list\<close>: the resource
  URI, the time span (start and end, each at midnight), the metric name and the
  aggregation; the interval is always one day. It returns the data or raises.
\<close>

type_synonym monitor_client =
  "string \<Rightarrow> pydate \<times> pydate \<Rightarrow> string \<Rightarrow> string \<Rightarrow> pyexn + metrics_data"

text \<open>\<open>max\<close> and \<open>min\<close> of a non-empty list, scanning from the first element.\<close>

fun py_max :: "real list \<Rightarrow> real" where
  "py_max [] = 0"
| "py_max (x # xs) = fold max xs x"

fun py_min :: "real list \<Rightarrow> real" where
  "py_min [] = 0"
| "py_min (x # xs) = fold min xs x"

definition get_metric_statistics ::
  "monitor_client \<Rightarrow> string \<Rightarrow> string \<Rightarrow> pydate \<Rightarrow> pydate \<Rightarrow> string \<Rightarrow> real option" where
  "get_metric_statistics monitor_client resource_id metric_name start_time end_time aggregation =
     (case monitor_client resource_id (start_time, end_time) metric_name aggregation of
        Inl e \<Rightarrow> None
      | Inr metrics_data \<Rightarrow>
          (case md_value metrics_data of
             Some (metric # _) \<Rightarrow>
               (case timeseries metric of
                  Some (ts # _) \<Rightarrow>
                    (case ts_data ts of
                       Some (dp # dps) \<Rightarrow>
                         let values = List.map_filter dp_value (dp # dps)
                         in if values \<noteq> [] then
                              if aggregation = ''Average'' then
                                Some (sum_list values / real (length values))
                              else if aggregation = ''Sum'' then Some (sum_list values)
                              else if aggregation = ''Maximum'' then Some (py_max values)
                              else if aggregation = ''Minimum'' then Some (py_min values)
                              else None
                            else None
                     | _ \<Rightarrow> None)
                | _ \<Rightarrow> None)
           | _ \<Rightarrow> None))"


section \<open>Resource Discoverer\<close>

definition MAX_RESOURCES_TO_ANALYZE :: nat where
  "MAX_RESOURCES_TO_ANALYZE = 100"

definition MAX_METRICS_PER_RESOURCE :: nat where
  "MAX_METRICS_PER_RESOURCE = 5"

text \<open>
  A resource as the SDK lists it; \<open>id\<close> may be missing. Name, type and location are
  strings, as the classifier uses them.
\<close>

datatype generic_resource =
  GenericResource (sdk_id: "string option") (sdk_name: string) (sdk_type: string)
    (sdk_location: string)

text \<open>The dictionary \<open>get_all_resources\<close> builds for a resource.\<close>

datatype resource =
  Resource (res_id: string) (res_name: string) (res_type: string) (res_location: string)
    (res_resource_group: string)

text \<open>
  The paged iterator \<open>resource_client.resources.list()\<close>: the items it yields, and the
  exception it raises after them, if any.
\<close>

datatype 'a paged = Paged (items: "'a list") (failure: "pyexn option")

text \<open>\<open>s.split(c)\<close> for a one-character separator.\<close>

fun split_on :: "char \<Rightarrow> string \<Rightarrow> string list" where
  "split_on c [] = [[]]"
| "split_on c (x # xs) =
     (if x = c then [] # split_on c xs
      else (case split_on c xs of
              [] \<Rightarrow> [[x]]
            | w # ws \<Rightarrow> (x # w) # ws))"

definition resource_dict :: "string \<Rightarrow> generic_resource \<Rightarrow> resource" where
  "resource_dict i r =
     Resource i (sdk_name r) (sdk_type r) (sdk_location r)
       (if length (split_on CHR ''/'' i) > 4 then split_on CHR ''/'' i ! 4 else ''Unknown'')"

text \<open>
  The \<open>for\<close> loop of \<open>get_all_resources\<close>: the list built, and whether the loop left
  through \<open>break\<close>.
\<close>

fun scan_resources :: "resource list \<Rightarrow> generic_resource list \<Rightarrow> resource list \<times> bool" where
  "scan_resources resources [] = (resources, False)"
| "scan_resources resources (r # rest) =
     (case sdk_id r of
        None \<Rightarrow> scan_resources resources rest
      | Some i \<Rightarrow>
          if i = [] then scan_resources resources rest
          else if length (resources @ [resource_dict i r]) \<ge> MAX_RESOURCES_TO_ANALYZE
               then (resources @ [resource_dict i r], True)
               else scan_resources (resources @ [resource_dict i r]) rest)"

definition get_all_resources :: "generic_resource paged \<Rightarrow> string \<Rightarrow> resource list" where
  "get_all_resources listing subscription_id =
     (case scan_resources [] (items listing) of
        (resources, stopped) \<Rightarrow>
          if stopped then resources
          else (case failure listing of None \<Rightarrow> resources | Some e \<Rightarrow> []))"

section \<open>Low-Usage Classifier\<close>

text \<open>
  The dictionary appended for a finding; the field names are the dictionary keys
  (\<open>lu_metric\<close> for \<open>metric\<close>, \<open>lu_threshold\<close> for \<open>threshold\<close>, and so on).
\<close>

record low_usage =
  lu_service :: string
  lu_resource_id :: string
  lu_resource_name :: string
  lu_resource_region :: string
  lu_metric :: string
  lu_average_usage :: real
  lu_threshold :: real
  lu_unit :: string
  lu_stat_type :: string

text \<open>
  \<open>round(x, 2)\<close>: to the nearest multiple of 1/100, a tie going to the even
  neighbour.
\<close>

definition round_half_even :: "real \<Rightarrow> int" where
  "round_half_even x =
     (let f = \<lfloor>x\<rfloor>; d = x - of_int f
      in if d < 1 / 2 then f else if d > 1 / 2 then f + 1 else if even f then f else f + 1)"

definition py_round2 :: "real \<Rightarrow> real" where
  "py_round2 x = of_int (round_half_even (x * 100)) / 100"

definition low_usage_entry :: "resource \<Rightarrow> metric_config \<Rightarrow> real \<Rightarrow> low_usage" where
  "low_usage_entry resource metric_config avg_usage =
     \<lparr>lu_service =
        (if CHR ''/'' \<in> set (res_type resource) then last (split_on CHR ''/'' (res_type resource))
         else res_type resource),
      lu_resource_id = res_id resource,
      lu_resource_name = res_name resource,
      lu_resource_region = res_location resource,
      lu_metric = cfg_metric metric_config,
      lu_average_usage = py_round2 avg_usage,
      lu_threshold = cfg_threshold metric_config,
      lu_unit = cfg_unit metric_config,
      lu_stat_type = cfg_stat metric_config\<rparr>"

text \<open>
  The two nested loops of \<open>get_comprehensive_low_usage_resources\<close>, each threading the
  list \<open>low_usage\<close>; \<open>start\<close> and \<open>end\<close> are combined with midnight before the
  calls.
\<close>

definition check_metric ::
  "monitor_client \<Rightarrow> pydate \<Rightarrow> pydate \<Rightarrow> resource \<Rightarrow> low_usage list \<Rightarrow> metric_config \<Rightarrow> low_usage list" where
  "check_metric monitor_client start_dt end_dt resource low_usage metric_config =
     (case get_metric_statistics monitor_client (res_id resource) (cfg_metric metric_config)
             start_dt end_dt (cfg_stat metric_config) of
        None \<Rightarrow> low_usage
      | Some avg_usage \<Rightarrow>
          if avg_usage < cfg_threshold metric_config
          then low_usage @ [low_usage_entry resource metric_config avg_usage]
          else low_usage)"

definition analyze_resource ::
  "monitor_client \<Rightarrow> pydate \<Rightarrow> pydate \<Rightarrow> low_usage list \<Rightarrow> resource \<Rightarrow> low_usage list" where
  "analyze_resource monitor_client start_dt end_dt low_usage resource =
     foldl (check_metric monitor_client start_dt end_dt resource) low_usage
       (take MAX_METRICS_PER_RESOURCE (get_primary_metrics_for_service (res_type resource)))"

definition get_comprehensive_low_usage_resources ::
  "monitor_client \<Rightarrow> generic_resource paged \<Rightarrow> string \<Rightarrow> pydate \<Rightarrow> pydate \<Rightarrow> low_usage list" where
  "get_comprehensive_low_usage_resources monitor_client resource_client subscription_id
       start_date end_date =
     foldl (analyze_resource monitor_client start_date end_date) []
       (get_all_resources resource_client subscription_id)"

section \<open>Persistence helper\<close>

text \<open>
  The store, as far as the two inserts below reach it: whether \<open>psycopg2.connect\<close>
  succeeds, and the rows of two tables in insertion order. The schema is not part of
  the repository. \<open>azure_service_costs\<close> has the unique key its \<open>ON CONFLICT\<close> clause
  names; whether \<open>azure_low_usage_resources\<close> declares a unique key over
  (\<open>run_date\<close>, \<open>resource_id\<close>, \<open>metric_name\<close>) is a field of the state.
\<close>

type_synonym service_cost_record = "string \<times> string \<times> real \<times> string"

type_synonym low_usage_record = "pydate \<times> low_usage"

record database =
  db_reachable :: bool
  db_low_usage_unique :: bool
  db_azure_service_costs :: "service_cost_record list"
  db_azure_low_usage_resources :: "low_usage_record list"

text \<open>
  One \<open>INSERT\<close> of one row into a table with an optional unique key. A row whose key
  is present is skipped under \<open>ON CONFLICT DO NOTHING\<close> and is a driver error
  (\<open>psycopg2.Error\<close>) without that clause.
\<close>

definition sql_insert ::
  "('r \<Rightarrow> 'k) option \<Rightarrow> bool \<Rightarrow> 'r list \<Rightarrow> 'r \<Rightarrow> pyexn + 'r list" where
  "sql_insert unique_key on_conflict_do_nothing table r =
     (case unique_key of
        None \<Rightarrow> Inr (table @ [r])
      | Some key \<Rightarrow>
          if key r \<in> set (map key table)
          then (if on_conflict_do_nothing then Inr table else Inl DatabaseError)
          else Inr (table @ [r]))"

text \<open>\<open>cursor.executemany\<close>: the statement once per record, in order.\<close>

fun executemany ::
  "('r \<Rightarrow> 'k) option \<Rightarrow> bool \<Rightarrow> 'r list \<Rightarrow> 'r list \<Rightarrow> pyexn + 'r list" where
  "executemany unique_key on_conflict_do_nothing table [] = Inr table"
| "executemany unique_key on_conflict_do_nothing table (r # records) =
     (case sql_insert unique_key on_conflict_do_nothing table r of
        Inl e \<Rightarrow> Inl e
      | Inr table' \<Rightarrow> executemany unique_key on_conflict_do_nothing table' records)"

text \<open>
  \<open>_execute_batch_insert\<close>: nothing is done for an empty batch. Otherwise the batch runs
  inside \<open>get_connection\<close>, whose handler turns every driver error, of the connection or
  of a statement, into \<open>PostgreSQLConnectionError\<close>; the rows are committed only when
  every statement succeeded. The result is the table after the call, or the exception;
  the row count returned is not modelled.
\<close>

definition execute_batch_insert ::
  "bool \<Rightarrow> ('r \<Rightarrow> 'k) option \<Rightarrow> bool \<Rightarrow> 'r list \<Rightarrow> 'r list \<Rightarrow> pyexn + 'r list" where
  "execute_batch_insert reachable unique_key on_conflict_do_nothing table records =
     (if records = [] then Inr table
      else if \<not> reachable then Inl PostgreSQLConnectionError
      else (case executemany unique_key on_conflict_do_nothing table records of
              Inl e \<Rightarrow> Inl PostgreSQLConnectionError
            | Inr table' \<Rightarrow> Inr table'))"

text \<open>
  The tuple \<open>insert_service_costs\<close> builds for a row, or nothing for a row without a date:
  \<^verbatim>\<open>row.get('date') or row.get('date_period')\<close> and
  \<^verbatim>\<open>row.get('dimension') or row.get('service_name', '')\<close> on the two shapes of row.
\<close>

definition service_cost_tuple :: "string \<Rightarrow> cost_row \<Rightarrow> service_cost_record option" where
  "service_cost_tuple month_label row =
     (case date row of
        None \<Rightarrow> None
      | Some date_str \<Rightarrow>
          if date_str = [] then None
          else Some (date_str,
                     (case row of SingleDim _ d _ \<Rightarrow> d | TwoDim _ _ s _ \<Rightarrow> s),
                     cost_amount row,
                     month_label))"

definition insert_service_costs :: "database \<Rightarrow> cost_row list \<Rightarrow> string \<Rightarrow> pyexn + database" where
  "insert_service_costs db rows month_label =
     (case execute_batch_insert (db_reachable db)
             (Some (\<lambda>(date_period, service_name, cost, label). (date_period, service_name, label)))
             True (db_azure_service_costs db)
             (List.map_filter (service_cost_tuple month_label) rows) of
        Inl e \<Rightarrow> Inl e
      | Inr table \<Rightarrow> Inr (db\<lparr>db_azure_service_costs := table\<rparr>))"

definition insert_low_usage_resources ::
  "database \<Rightarrow> low_usage list \<Rightarrow> pydate \<Rightarrow> pyexn + database" where
  "insert_low_usage_resources db low_usage_resources run_date =
     (if low_usage_resources = [] then Inr db
      else (case execute_batch_insert (db_reachable db)
                   (if db_low_usage_unique db
                    then Some (\<lambda>(d, f). (d, lu_resource_id f, lu_metric f))
                    else None)
                   False (db_azure_low_usage_resources db)
                   (map (\<lambda>resource. (run_date, resource)) low_usage_resources) of
              Inl e \<Rightarrow> Inl e
            | Inr table \<Rightarrow> Inr (db\<lparr>db_azure_low_usage_resources := table\<rparr>)))"

section \<open>Run Orchestrator\<close>

text \<open>
  The cost client, as a function of the arguments of \<open>query.usage\<close>: scope, start and
  end of the period and the groupings (type and name). It returns the \<open>rows\<close> of the
  result or raises.
\<close>

type_synonym cost_client =
  "string \<Rightarrow> pydate \<Rightarrow> pydate \<Rightarrow> (string \<times> string) list \<Rightarrow> pyexn + pyval list list option"

definition get_cost_data ::
  "cost_client \<Rightarrow> string \<Rightarrow> pydate \<Rightarrow> pydate \<Rightarrow> (string \<times> string) list \<Rightarrow> response" where
  "get_cost_data cost_client scope start_date end_date group_by =
     (case cost_client scope start_date end_date group_by of
        Inl e \<Rightarrow> RowsDict
      | Inr rows \<Rightarrow> QueryResult rows)"

definition get_cost_breakdown_by_service ::
  "cost_client \<Rightarrow> string \<Rightarrow> pydate \<Rightarrow> pydate \<Rightarrow> response" where
  "get_cost_breakdown_by_service cost_client scope start_date end_date =
     get_cost_data cost_client scope start_date end_date [(''Dimension'', ''ServiceName'')]"

definition get_cost_breakdown_by_region ::
  "cost_client \<Rightarrow> string \<Rightarrow> pydate \<Rightarrow> pydate \<Rightarrow> response" where
  "get_cost_breakdown_by_region cost_client scope start_date end_date =
     get_cost_data cost_client scope start_date end_date [(''Dimension'', ''ResourceLocation'')]"

definition get_cost_breakdown_by_region_and_service ::
  "cost_client \<Rightarrow> string \<Rightarrow> pydate \<Rightarrow> pydate \<Rightarrow> response" where
  "get_cost_breakdown_by_region_and_service cost_client scope start_date end_date =
     get_cost_data cost_client scope start_date end_date
       [(''Dimension'', ''ResourceLocation''), (''Dimension'', ''ServiceName'')]"

text \<open>
  What a run reads from outside: the configuration, the date, the outcome of building
  the credential and the clients, the three clients, and the elapsed time it measures.
\<close>

record environment =
  env_subscription_id :: "string option"
  env_azure_scope :: "string option"
  env_enable_postgres :: bool
  env_today :: pydate
  env_sdk_setup :: "pyexn option"
  env_cost_client :: cost_client
  env_monitor_client :: monitor_client
  env_resource_client :: "generic_resource paged"
  env_execution_time_ms :: int

text \<open>
  The values \<open>main\<close> holds when it reaches the storage phase: the validated
  \<open>SUBSCRIPTION_ID\<close> and what it has computed.
\<close>

record analysis =
  an_subscription_id :: string
  an_start_date :: pydate
  an_end_date :: pydate
  an_last_month_start :: pydate
  an_last_month_end :: pydate
  an_cost_data_service :: "cost_row list"
  an_cost_data_region :: "cost_row list"
  an_cost_data_region_service :: "cost_row list"
  an_last_month_cost_data_service :: "cost_row list"
  an_last_month_cost_data_region :: "cost_row list"
  an_last_month_cost_data_region_service :: "cost_row list"
  an_low_usage_resources :: "low_usage list"
  an_current_total_cost :: real
  an_last_total_cost :: real

text \<open>
  \<open>main\<close> from the validation of the configuration to the totals: the values computed,
  or the exception raised on the way.
\<close>

definition analyse :: "environment \<Rightarrow> pyexn + analysis" where
  "analyse env =
     (case env_subscription_id env of
        None \<Rightarrow> Inl ValueError
      | Some subscription_id \<Rightarrow>
          if subscription_id = [] then Inl ValueError
          else
            let scope = (case env_azure_scope env of
                           None \<Rightarrow> ''/subscriptions/'' @ subscription_id
                         | Some s \<Rightarrow> if s = [] then ''/subscriptions/'' @ subscription_id else s)
            in case env_sdk_setup env of
                 Some e \<Rightarrow> Inl e
               | None \<Rightarrow>
                   let today = env_today env
                   in case date_replace today None None (Some 1) of
                        Inl e \<Rightarrow> Inl e
                      | Inr start_date \<Rightarrow>
                   (case date_add_day today of
                        Inl e \<Rightarrow> Inl e
                      | Inr end_date_plus1 \<Rightarrow>
                   (case last_month_window today of
                        Inl e \<Rightarrow> Inl e
                      | Inr (last_month_start, last_month_end) \<Rightarrow>
                   (case date_add_day last_month_end of
                        Inl e \<Rightarrow> Inl e
                      | Inr last_month_end_plus1 \<Rightarrow>
                   let cost_data_service = process_cost_response
                         (get_cost_breakdown_by_service (env_cost_client env) scope
                            start_date end_date_plus1);
                       last_month_cost_data_service = process_cost_response
                         (get_cost_breakdown_by_service (env_cost_client env) scope
                            last_month_start last_month_end_plus1)
                   in Inr \<lparr>an_subscription_id = subscription_id,
                           an_start_date = start_date,
                           an_end_date = today,
                           an_last_month_start = last_month_start,
                           an_last_month_end = last_month_end,
                           an_cost_data_service = cost_data_service,
                           an_cost_data_region = process_cost_response
                             (get_cost_breakdown_by_region (env_cost_client env) scope
                                start_date end_date_plus1),
                           an_cost_data_region_service = process_cost_response
                             (get_cost_breakdown_by_region_and_service (env_cost_client env)
                                scope start_date end_date_plus1),
                           an_last_month_cost_data_service = last_month_cost_data_service,
                           an_last_month_cost_data_region = process_cost_response
                             (get_cost_breakdown_by_region (env_cost_client env) scope
                                last_month_start last_month_end_plus1),
                           an_last_month_cost_data_region_service = process_cost_response
                             (get_cost_breakdown_by_region_and_service (env_cost_client env)
                                scope last_month_start last_month_end_plus1),
                           an_low_usage_resources = get_comprehensive_low_usage_resources
                             (env_monitor_client env) (env_resource_client env)
                             subscription_id start_date today,
                           an_current_total_cost =
                             foldl (\<lambda>total row. total + cost_amount row) 0 cost_data_service,
                           an_last_total_cost =
                             foldl (\<lambda>total row. total + cost_amount row) 0
                               last_month_cost_data_service\<rparr>))))"

text \<open>The dictionary handed to \<open>insert_monitoring_run\<close>.\<close>

record run_metadata =
  rm_run_date :: pydate
  rm_start_date :: pydate
  rm_end_date :: pydate
  rm_last_month_start :: pydate
  rm_last_month_end :: pydate
  rm_total_current_cost :: real
  rm_total_last_month_cost :: real
  rm_low_usage_count :: nat
  rm_execution_status :: string
  rm_error_message :: "pyexn option"
  rm_execution_time_ms :: int

text \<open>
  The operations \<open>main\<close> imports from the persistence helper, over a store of any type
  \<open>'db\<close>: each takes the store and returns its result, or the exception it raises,
  with the store after the call. \<open>main\<close> is modelled for every behaviour of these
  operations.
\<close>

record 'db postgres =
  pg_create_postgres_helper :: "pyexn option"
  pg_test_connection :: "'db \<Rightarrow> bool"
  pg_insert_azure_cost_data ::
    "'db \<Rightarrow> cost_row list \<Rightarrow> cost_row list \<Rightarrow> cost_row list \<Rightarrow> low_usage list \<Rightarrow> pydate \<Rightarrow> string
       \<Rightarrow> (pyexn + int \<times> int \<times> int \<times> int) \<times> 'db"
  pg_insert_monitoring_run :: "'db \<Rightarrow> run_metadata \<Rightarrow> (pyexn + string option) \<times> 'db"
  pg_cleanup_old_data :: "'db \<Rightarrow> nat \<Rightarrow> (pyexn + int) \<times> 'db"

text \<open>
  The dictionary \<open>postgres_results\<close>: empty, or with status \<open>success\<close> and the counts and
  run id, or with status \<open>failed\<close> and the error.
\<close>

datatype postgres_results =
    NoResults
  | Success "int \<times> int \<times> int \<times> int" "int \<times> int \<times> int \<times> int" "string option"
  | Failed pyexn

text \<open>
  The \<open>try\<close> block under \<open>if ENABLE_POSTGRES\<close> with its two handlers, which both set
  the status to \<open>failed\<close>: the resulting \<open>postgres_results\<close> and the store.
\<close>

definition store_results ::
  "environment \<Rightarrow> 'db postgres \<Rightarrow> analysis \<Rightarrow> 'db \<Rightarrow> postgres_results \<times> 'db" where
  "store_results env pg a db =
     (case pg_create_postgres_helper pg of
        Some e \<Rightarrow> (Failed e, db)
      | None \<Rightarrow>
          if \<not> pg_test_connection pg db then (Failed PostgreSQLConnectionError, db)
          else
            (case pg_insert_azure_cost_data pg db (an_cost_data_service a)
                    (an_cost_data_region a) (an_cost_data_region_service a)
                    (an_low_usage_resources a) (env_today env) ''current'' of
               (Inl e, db1) \<Rightarrow> (Failed e, db1)
             | (Inr current_month_results, db1) \<Rightarrow>
                 let last_month_low_usage_resources =
                       get_comprehensive_low_usage_resources (env_monitor_client env)
                         (env_resource_client env) (an_subscription_id a)
                         (an_last_month_start a) (an_last_month_end a)
                 in (case pg_insert_azure_cost_data pg db1 (an_last_month_cost_data_service a)
                           (an_last_month_cost_data_region a)
                           (an_last_month_cost_data_region_service a)
                           last_month_low_usage_resources (env_today env) ''last_month'' of
                       (Inl e, db2) \<Rightarrow> (Failed e, db2)
                     | (Inr last_month_results, db2) \<Rightarrow>
                         (case pg_insert_monitoring_run pg db2
                                 \<lparr>rm_run_date = env_today env,
                                  rm_start_date = an_start_date a,
                                  rm_end_date = an_end_date a,
                                  rm_last_month_start = an_last_month_start a,
                                  rm_last_month_end = an_last_month_end a,
                                  rm_total_current_cost = an_current_total_cost a,
                                  rm_total_last_month_cost = an_last_total_cost a,
                                  rm_low_usage_count = length (an_low_usage_resources a),
                                  rm_execution_status = ''success'',
                                  rm_error_message = None,
                                  rm_execution_time_ms = env_execution_time_ms env\<rparr> of
                            (Inl e, db3) \<Rightarrow> (Failed e, db3)
                          | (Inr run_id, db3) \<Rightarrow>
                              (Success current_month_results last_month_results run_id, db3)))))"

text \<open>
  What a run leaves: the exception it propagates to its invoker, if any; the values it
  computed; \<open>postgres_results\<close>; the report it logs (the two totals, the number of
  low-usage findings and the execution time); and the store.
\<close>

record 'db run_outcome =
  out_raised :: "pyexn option"
  out_analysis :: "analysis option"
  out_postgres_results :: postgres_results
  out_report :: "(real \<times> real \<times> nat \<times> int) option"
  out_db :: 'db

text \<open>
  The handler of the outer \<open>try\<close>: a best-effort insert of a failure record, whose own
  exceptions are swallowed.
\<close>

definition log_failure :: "environment \<Rightarrow> 'db postgres \<Rightarrow> pyexn \<Rightarrow> 'db \<Rightarrow> 'db" where
  "log_failure env pg e db =
     (if env_enable_postgres env then
        (case pg_create_postgres_helper pg of
           Some _ \<Rightarrow> db
         | None \<Rightarrow>
             (case date_replace (env_today env) None None (Some 1) of
                Inl _ \<Rightarrow> db
              | Inr first_day \<Rightarrow>
                  snd (pg_insert_monitoring_run pg db
                        \<lparr>rm_run_date = env_today env,
                         rm_start_date = first_day,
                         rm_end_date = env_today env,
                         rm_last_month_start = first_day,
                         rm_last_month_end = env_today env,
                         rm_total_current_cost = 0,
                         rm_total_last_month_cost = 0,
                         rm_low_usage_count = 0,
                         rm_execution_status = ''failed'',
                         rm_error_message = Some e,
                         rm_execution_time_ms = env_execution_time_ms env\<rparr>)))
      else db)"

definition main :: "environment \<Rightarrow> 'db postgres \<Rightarrow> 'db \<Rightarrow> 'db run_outcome" where
  "main env pg db =
     (case analyse env of
        Inl e \<Rightarrow>
          \<lparr>out_raised = Some e, out_analysis = None, out_postgres_results = NoResults,
           out_report = None, out_db = log_failure env pg e db\<rparr>
      | Inr a \<Rightarrow>
          (case (if env_enable_postgres env then store_results env pg a db
                 else (NoResults, db)) of
             (postgres_results, db1) \<Rightarrow>
               \<lparr>out_raised = None,
                out_analysis = Some a,
                out_postgres_results = postgres_results,
                out_report = Some (an_current_total_cost a, an_last_total_cost a,
                                   length (an_low_usage_resources a),
                                   env_execution_time_ms env),
                out_db =
                  (if env_enable_postgres env
                      \<and> (case postgres_results of Success _ _ _ \<Rightarrow> True | _ \<Rightarrow> False)
                   then (case pg_create_postgres_helper pg of
                           Some _ \<Rightarrow> db1
                         | None \<Rightarrow> snd (pg_cleanup_old_data pg db1 90))
                   else db1)\<rparr>))"

section \<open>Properties of the normalizer\<close>

lemmas normalizer_defs =
  process_cost_response_def process_cost_response_logged_def process_cost_response_run_def
  process_row_def row_date_str_def row_cost_amount_def dimension_name_def

lemma process_row_cases:
  "process_row row =
     (if length row < 3 then Inr []
      else case row_cost_amount (last row) of
             Inl e \<Rightarrow> Inl e
           | Inr c \<Rightarrow>
               Inr [if length row = 3
                    then SingleDim (row_date_str (row ! 0)) (dimension_name (row ! 1)) c
                    else TwoDim (row_date_str (row ! 0)) (dimension_name (row ! 1))
                           (dimension_name (row ! 2)) c])"
  by (auto simp: process_row_def Let_def split: sum.splits)

lemma process_rows_append_ok:
  "\<forall>row\<in>set pre. \<exists>out. process_row row = Inr out \<Longrightarrow>
   \<exists>mid. (\<forall>acc rest. process_rows acc (pre @ rest) = process_rows (acc @ mid) rest)"
proof (induction pre)
  case Nil
  have "\<forall>acc rest. process_rows acc ([] @ rest) = process_rows (acc @ []) rest" by simp
  then show ?case by blast
next
  case (Cons row pre)
  then obtain out mid where o: "process_row row = Inr out"
    and m: "\<forall>acc rest. process_rows acc (pre @ rest) = process_rows (acc @ mid) rest"
    by auto
  have "\<forall>acc rest. process_rows acc ((row # pre) @ rest) = process_rows (acc @ (out @ mid)) rest"
    using o m by simp
  then show ?case by blast
qed

lemma process_rows_acc_kept: "set acc \<subseteq> set (fst (process_rows acc rs))"
proof (induction rs arbitrary: acc)
  case Nil
  then show ?case by simp
next
  case (Cons row rs)
  show ?case
  proof (cases "process_row row")
    case (Inl e)
    then show ?thesis by simp
  next
    case (Inr out)
    have "set acc \<subseteq> set (acc @ out)" by simp
    also have "\<dots> \<subseteq> set (fst (process_rows (acc @ out) rs))" by (rule Cons.IH)
    finally show ?thesis using Inr by simp
  qed
qed





text \<open>
  C2, as stated, fails: a row whose date element is \<open>None\<close> is not dropped by the
  normalizer; it is returned with \<open>date = None\<close>.
\<close>

theorem null_date_row_counterexample:
  "process_cost_response (QueryResult (Some [[PNone, PStr ''VM'', PInt 5]]))
     = [SingleDim None ''VM'' 5]"
  by (simp add: normalizer_defs)

text \<open>
  C2, amended. A row of length at least 3 whose date element is missing or null, reached
  without an earlier conversion error and with a cost element that converts, raises no
  error and is not dropped: its record is in the output, with \<open>date = None\<close>.
\<close>

theorem null_date_row_kept:
  assumes "\<forall>r\<in>set pre. \<exists>out. process_row r = Inr out"
    and "3 \<le> length row" and "\<not> truthy (row ! 0)"
    and "row_cost_amount (last row) = Inr c"
  shows "\<exists>cr\<in>set (process_cost_response (QueryResult (Some (pre @ row # post)))).
           date cr = None \<and> cost_amount cr = c"
proof -
  from process_rows_append_ok [OF assms(1)] obtain mid where
    m: "\<forall>acc rest. process_rows acc (pre @ rest) = process_rows (acc @ mid) rest" by blast
  let ?cr = "if length row = 3
                    then SingleDim (row_date_str (row ! 0)) (dimension_name (row ! 1)) c
                    else TwoDim (row_date_str (row ! 0)) (dimension_name (row ! 1))
                           (dimension_name (row ! 2)) c"
  have pr: "process_row row = Inr [?cr]" using assms(2,4) by (simp add: process_row_cases)
  have "process_rows [] (pre @ row # post) = process_rows (mid @ [?cr]) post"
    using m pr by simp
  moreover have "?cr \<in> set (fst (process_rows (mid @ [?cr]) post))"
    using process_rows_acc_kept [of "mid @ [?cr]" post] by auto
  ultimately have "?cr \<in> set (process_cost_response (QueryResult (Some (pre @ row # post))))"
    by (simp add: process_cost_response_def process_cost_response_run_def)
  moreover have "date ?cr = None \<and> cost_amount ?cr = c"
    using assms(3) by (simp add: row_date_str_def)
  ultimately show ?thesis by blast
qed

text \<open>C2, amended, at a null-date row between a good row and a failing one.\<close>

theorem null_date_row_kept_witness:
  "\<exists>cr\<in>set (process_cost_response (QueryResult (Some
        ([[PStr ''2024-05-01'', PStr ''VM'', PInt 1]] @ [PNone, PStr ''VM'', PInt 5] #
         [[PStr ''2024-05-03'', PStr ''VM'', PStr ''N/A'']])))).
      date cr = None \<and> cost_amount cr = 5"
proof -
  have 1: "\<forall>r\<in>set [[PStr ''2024-05-01'', PStr ''VM'', PInt 1]]. \<exists>out. process_row r = Inr out"
    by (simp add: normalizer_defs)
  have 2: "3 \<le> length [PNone, PStr ''VM'', PInt 5]" by simp
  have 3: "\<not> truthy ([PNone, PStr ''VM'', PInt 5] ! 0)" by simp
  have 4: "row_cost_amount (last [PNone, PStr ''VM'', PInt 5]) = Inr 5"
    by (simp add: row_cost_amount_def)
  from null_date_row_kept [OF 1 2 3 4] show ?thesis .
qed







section \<open>Properties of the previous-month window\<close>

lemma days_in_month_cases:
  "1 \<le> m \<Longrightarrow> m \<le> 12 \<Longrightarrow>
   days_in_month y m =
     (if m \<in> set [1, 3, 5, 7, 8, 10, 12] then 31
      else if m \<in> set [4, 6, 9, 11] then 30
      else if (y mod 4 = 0 \<and> y mod 100 \<noteq> 0) \<or> y mod 400 = 0 then 29 else 28)"
proof -
  assume "1 \<le> m" "m \<le> 12"
  then have "m = 1 \<or> m = 2 \<or> m = 3 \<or> m = 4 \<or> m = 5 \<or> m = 6 \<or> m = 7 \<or> m = 8 \<or> m = 9
     \<or> m = 10 \<or> m = 11 \<or> m = 12" by arith
  then show ?thesis
    by (elim disjE) (auto simp: days_in_month_def is_leap_def)
qed

lemma days_in_month_ge_28: "1 \<le> m \<Longrightarrow> m \<le> 12 \<Longrightarrow> 28 \<le> days_in_month y m"
  by (simp add: days_in_month_cases)

text \<open>
  C7. For every date \<open>today\<close> that exists, the month before which exists too (not January
  of year 1), the window is the whole previous calendar month: it starts on day 1 of
  that month and ends on its last day by the Gregorian leap rule, both dates exist, and
  the day after the end is the first day of the current month.
\<close>

theorem last_month_window_previous_month:
  assumes "valid_date today" and "\<not> (year today = 1 \<and> month today = 1)"
  shows "\<exists>y m. (if month today = 1 then y = year today - 1 \<and> m = 12
                 else y = year today \<and> m = month today - 1)
           \<and> last_month_window today =
               Inr (\<lparr>year = y, month = m, day = 1\<rparr>,
                    \<lparr>year = y, month = m, day = days_in_month y m\<rparr>)
           \<and> valid_date \<lparr>year = y, month = m, day = 1\<rparr>
           \<and> valid_date \<lparr>year = y, month = m, day = days_in_month y m\<rparr>
           \<and> date_add_day \<lparr>year = y, month = m, day = days_in_month y m\<rparr>
               = date_replace today None None (Some 1)"
proof (cases "month today = 1")
  case True
  with assms have y: "2 \<le> year today" "year today \<le> 9999" by (auto simp: valid_date_def)
  have d: "days_in_month (year today - 1) 12 = 31" by (simp add: days_in_month_def)
  have "last_month_window today =
               Inr (\<lparr>year = year today - 1, month = 12, day = 1\<rparr>,
                    \<lparr>year = year today - 1, month = 12, day = 31\<rparr>)"
    using True y by (simp add: last_month_window_def date_replace_def valid_date_def d)
  moreover have "date_add_day \<lparr>year = year today - 1, month = 12, day = 31\<rparr>
               = date_replace today None None (Some 1)"
    using True y by (simp add: date_add_day_def date_replace_def valid_date_def d days_in_month_def)
  moreover have "valid_date \<lparr>year = year today - 1, month = 12, day = 1\<rparr>"
    "valid_date \<lparr>year = year today - 1, month = 12, day = 31\<rparr>"
    using y by (simp_all add: valid_date_def d)
  ultimately show ?thesis using True d by auto
next
  case False
  with assms have m: "2 \<le> month today" "month today \<le> 12" "1 \<le> year today" "year today \<le> 9999"
    by (auto simp: valid_date_def)
  let ?m = "month today - 1"
  let ?y = "year today"
  have pm: "1 \<le> ?m" "?m \<le> 12" "?m < 12" using m by auto
  have ge: "28 \<le> days_in_month ?y ?m" using pm by (simp add: days_in_month_ge_28)
  have ld: "(if ?m \<in> set [1, 3, 5, 7, 8, 10, 12] then 31
                  else if ?m \<in> set [4, 6, 9, 11] then 30
                  else (let y = ?y
                        in if (y mod 4 = 0 \<and> y mod 100 \<noteq> 0) \<or> y mod 400 = 0 then 29
                           else 28)) = days_in_month ?y ?m"
    using days_in_month_cases [OF pm(1,2), of ?y] by (simp only: Let_def)
  have v1: "valid_date \<lparr>year = ?y, month = ?m, day = 1\<rparr>"
    using m pm ge by (simp add: valid_date_def)
  have v2: "valid_date \<lparr>year = ?y, month = ?m, day = days_in_month ?y ?m\<rparr>"
    using m pm ge by (simp add: valid_date_def)
  have w: "last_month_window today =
               Inr (\<lparr>year = ?y, month = ?m, day = 1\<rparr>,
                    \<lparr>year = ?y, month = ?m, day = days_in_month ?y ?m\<rparr>)"
    unfolding last_month_window_def ld using False v1 v2
    by (simp add: date_replace_def)
  have "valid_date \<lparr>year = ?y, month = month today, day = 1\<rparr>"
    using assms(1) m days_in_month_ge_28 [of "month today" ?y] by (simp add: valid_date_def)
  then have a: "date_add_day \<lparr>year = ?y, month = ?m, day = days_in_month ?y ?m\<rparr>
               = date_replace today None None (Some 1)"
    using pm by (simp add: date_add_day_def date_replace_def)
  from w v1 v2 a False show ?thesis by auto
qed

text \<open>C7, at 2024-01-15, 2024-03-10 and 2023-03-10.\<close>

theorem last_month_window_previous_month_witness:
  "last_month_window \<lparr>year = 2024, month = 1, day = 15\<rparr>
     = Inr (\<lparr>year = 2023, month = 12, day = 1\<rparr>, \<lparr>year = 2023, month = 12, day = 31\<rparr>)
   \<and> last_month_window \<lparr>year = 2024, month = 3, day = 10\<rparr>
     = Inr (\<lparr>year = 2024, month = 2, day = 1\<rparr>, \<lparr>year = 2024, month = 2, day = 29\<rparr>)
   \<and> last_month_window \<lparr>year = 2023, month = 3, day = 10\<rparr>
     = Inr (\<lparr>year = 2023, month = 2, day = 1\<rparr>, \<lparr>year = 2023, month = 2, day = 28\<rparr>)"
proof -
  have v: "valid_date \<lparr>year = 2024, month = 1, day = 15\<rparr>"
    "valid_date \<lparr>year = 2024, month = 3, day = 10\<rparr>"
    "valid_date \<lparr>year = 2023, month = 3, day = 10\<rparr>"
    by (simp_all add: valid_date_def days_in_month_def is_leap_def)
  have d: "days_in_month 2023 12 = 31" "days_in_month 2024 2 = 29" "days_in_month 2023 2 = 28"
    by (simp_all add: days_in_month_def is_leap_def)
  from last_month_window_previous_month [OF v(1)]
       last_month_window_previous_month [OF v(2)]
       last_month_window_previous_month [OF v(3)] d
  show ?thesis by auto
qed

section \<open>Properties of the metric statistics fetcher\<close>






section \<open>Properties of the low-usage classifier\<close>

lemma check_metric_append:
  "check_metric monitor_client start_dt end_dt resource low_usage metric_config =
     low_usage @ check_metric monitor_client start_dt end_dt resource [] metric_config"
  by (simp add: check_metric_def split: option.splits)

lemma foldl_check_metric:
  "foldl (check_metric monitor_client start_dt end_dt resource) low_usage cfgs =
     low_usage @ concat (map (check_metric monitor_client start_dt end_dt resource []) cfgs)"
proof (induction cfgs arbitrary: low_usage)
  case Nil
  then show ?case by simp
next
  case (Cons cfg cfgs)
  show ?case
    by (simp add: Cons.IH)
      (simp add: check_metric_append [of _ _ _ _ low_usage])
qed

lemma analyze_resource_append:
  "analyze_resource monitor_client start_dt end_dt low_usage resource =
     low_usage @ analyze_resource monitor_client start_dt end_dt [] resource"
  by (simp add: analyze_resource_def foldl_check_metric [of _ _ _ _ low_usage]
        foldl_check_metric [of _ _ _ _ "[]"])

lemma foldl_analyze_resource:
  "foldl (analyze_resource monitor_client start_dt end_dt) low_usage resources =
     low_usage @ concat (map (analyze_resource monitor_client start_dt end_dt []) resources)"
proof (induction resources arbitrary: low_usage)
  case Nil
  then show ?case by simp
next
  case (Cons r rs)
  show ?case
    by (simp add: Cons.IH)
      (simp add: analyze_resource_append [of _ _ _ low_usage])
qed

lemma get_comprehensive_low_usage_resources_concat:
  "get_comprehensive_low_usage_resources monitor_client resource_client subscription_id
       start_date end_date =
     concat (map (\<lambda>resource.
        concat (map (\<lambda>metric_config.
            case get_metric_statistics monitor_client (res_id resource)
                   (cfg_metric metric_config) start_date end_date (cfg_stat metric_config) of
              None \<Rightarrow> []
            | Some reading \<Rightarrow>
                if reading < cfg_threshold metric_config
                then [low_usage_entry resource metric_config reading]
                else [])
          (take 5 (get_primary_metrics_for_service (res_type resource)))))
       (get_all_resources resource_client subscription_id))"
proof -
  have c: "check_metric monitor_client start_date end_date resource [] metric_config =
        (case get_metric_statistics monitor_client (res_id resource)
                   (cfg_metric metric_config) start_date end_date (cfg_stat metric_config) of
              None \<Rightarrow> []
            | Some reading \<Rightarrow>
                if reading < cfg_threshold metric_config
                then [low_usage_entry resource metric_config reading]
                else [])" for resource metric_config
    by (simp add: check_metric_def split: option.splits)
  have a: "analyze_resource monitor_client start_date end_date [] resource =
       concat (map (check_metric monitor_client start_date end_date resource [])
          (take 5 (get_primary_metrics_for_service (res_type resource))))" for resource
    by (simp add: analyze_resource_def foldl_check_metric MAX_METRICS_PER_RESOURCE_def)
  show ?thesis
    unfolding get_comprehensive_low_usage_resources_def foldl_analyze_resource a c by simp
qed

text \<open>
  C6. The findings are, resource by resource and for the first 5 entries of the
  resource type's table in table order, exactly one finding for each pair whose reading
  exists and is strictly below the threshold, and none for a pair with no reading or
  with a reading at or above the threshold.
\<close>

theorem low_usage_emitted_iff_reading_below_threshold:
  "get_comprehensive_low_usage_resources monitor_client resource_client subscription_id
       start_date end_date =
     concat (map (\<lambda>resource.
        concat (map (\<lambda>metric_config.
            case get_metric_statistics monitor_client (res_id resource)
                   (cfg_metric metric_config) start_date end_date (cfg_stat metric_config) of
              None \<Rightarrow> []
            | Some reading \<Rightarrow>
                if reading < cfg_threshold metric_config
                then [low_usage_entry resource metric_config reading]
                else [])
          (take 5 (get_primary_metrics_for_service (res_type resource)))))
       (get_all_resources resource_client subscription_id))"
  by (rule get_comprehensive_low_usage_resources_concat)

text \<open>
  C6, at a resource of unknown type with readings 0.5 for \<open>Requests\<close> (threshold 10)
  and 1 for \<open>Errors\<close> (threshold 1).
\<close>

theorem low_usage_emitted_iff_reading_below_threshold_witness:
  "get_comprehensive_low_usage_resources
     (\<lambda>rid ts mn agg.
        if mn = ''Requests''
        then Inr (MetricsData (Some [Metric (Some [TimeSeries (Some [DataPoint (Some (1 / 2))])])]))
        else if mn = ''Errors''
        then Inr (MetricsData (Some [Metric (Some [TimeSeries (Some [DataPoint (Some 1)])])]))
        else Inl OtherError)
     (Paged [GenericResource (Some ''/subscriptions/s1/resourceGroups/rg1/x'') ''x''
               ''Contoso.Custom/things'' ''westeurope''] None)
     ''s1'' \<lparr>year = 2024, month = 5, day = 1\<rparr> \<lparr>year = 2024, month = 5, day = 20\<rparr>
   = [\<lparr>lu_service = ''things'',
       lu_resource_id = ''/subscriptions/s1/resourceGroups/rg1/x'',
       lu_resource_name = ''x'', lu_resource_region = ''westeurope'',
       lu_metric = ''Requests'', lu_average_usage = 1 / 2,
       lu_threshold = 10, lu_unit = ''Count'', lu_stat_type = ''Sum''\<rparr>]"
  unfolding low_usage_emitted_iff_reading_below_threshold
  by (simp add: get_all_resources_def resource_dict_def MAX_RESOURCES_TO_ANALYZE_def
      get_primary_metrics_for_service_def service_metrics_def default_metrics_def
      get_metric_statistics_def List.map_filter_simps low_usage_entry_def
      py_round2_def round_half_even_def)








section \<open>Properties of the persistence helper\<close>

lemma executemany_present:
  "\<forall>r\<in>set records. key r \<in> set (map key table) \<Longrightarrow>
   executemany (Some key) True table records = Inr table"
  by (induction records) (simp_all add: sql_insert_def)

lemma executemany_do_nothing:
  "\<exists>table'. executemany (Some key) True table records = Inr table'
     \<and> set (map key table) \<subseteq> set (map key table')
     \<and> set (map key records) \<subseteq> set (map key table')
     \<and> (distinct (map key table) \<longrightarrow> distinct (map key table'))"
proof (induction records arbitrary: table)
  case Nil
  then show ?case by simp
next
  case (Cons r records)
  show ?case
  proof (cases "key r \<in> set (map key table)")
    case True
    from Cons.IH [of table] obtain table' where
      t: "executemany (Some key) True table records = Inr table'"
      "set (map key table) \<subseteq> set (map key table')"
      "set (map key records) \<subseteq> set (map key table')"
      "distinct (map key table) \<longrightarrow> distinct (map key table')" by blast
    have "executemany (Some key) True table (r # records) = Inr table'"
      using True t(1) by (simp add: sql_insert_def)
    moreover have "set (map key (r # records)) \<subseteq> set (map key table')"
      using True t(2,3) by auto
    ultimately show ?thesis using t(2,4) by blast
  next
    case False
    from Cons.IH [of "table @ [r]"] obtain table' where
      t: "executemany (Some key) True (table @ [r]) records = Inr table'"
      "set (map key (table @ [r])) \<subseteq> set (map key table')"
      "set (map key records) \<subseteq> set (map key table')"
      "distinct (map key (table @ [r])) \<longrightarrow> distinct (map key table')" by blast
    have "executemany (Some key) True table (r # records) = Inr table'"
      using False t(1) by (simp add: sql_insert_def)
    moreover have "set (map key table) \<subseteq> set (map key table')" using t(2) by auto
    moreover have "set (map key (r # records)) \<subseteq> set (map key table')" using t(2,3) by auto
    moreover have "distinct (map key table) \<longrightarrow> distinct (map key table')"
      using t(4) False by auto
    ultimately show ?thesis by blast
  qed
qed

text \<open>A row without a date gives no tuple: the inserts skip it.\<close>

lemma service_cost_tuple_null_date:
  "date row = None \<Longrightarrow> service_cost_tuple month_label row = None"
  by (simp add: service_cost_tuple_def)

text \<open>
  The insert of the service costs can be run again: a second run with the same rows
  leaves the table as the first run left it.
\<close>

lemma insert_service_costs_rerun:
  assumes "insert_service_costs db rows month_label = Inr db'"
  shows "insert_service_costs db' rows month_label = Inr db'"
proof -
  let ?key = "\<lambda>(date_period :: string, service_name :: string, cost :: real, label :: string).
                (date_period, service_name, label)"
  let ?records = "List.map_filter (service_cost_tuple month_label) rows"
  show ?thesis
  proof (cases "?records = []")
    case True
    with assms show ?thesis
      by (auto simp: insert_service_costs_def execute_batch_insert_def)
  next
    case False
    from executemany_do_nothing [of ?key "db_azure_service_costs db" ?records] obtain table' where
      t: "executemany (Some ?key) True (db_azure_service_costs db) ?records = Inr table'"
      "set (map ?key ?records) \<subseteq> set (map ?key table')" by blast
    from assms False t(1) have r: "db_reachable db" and d: "db' = db\<lparr>db_azure_service_costs := table'\<rparr>"
      by (auto simp: insert_service_costs_def execute_batch_insert_def split: if_splits)
    have "executemany (Some ?key) True table' ?records = Inr table'"
      using t(2) by (intro executemany_present) auto
    then show ?thesis using False r d
      by (simp add: insert_service_costs_def execute_batch_insert_def)
  qed
qed

text \<open>
  C8 fails on the insert of the low-usage findings, whose statement has no
  \<open>ON CONFLICT\<close> clause. Run twice with the same finding and date on an empty table,
  it stores the row twice when the table declares no unique key, and raises on the
  second run when it declares one.
\<close>

theorem insert_low_usage_resources_rerun_duplicates:
  "insert_low_usage_resources
     \<lparr>db_reachable = True, db_low_usage_unique = False, db_azure_service_costs = [],
      db_azure_low_usage_resources = []\<rparr>
     [\<lparr>lu_service = ''virtualMachines'', lu_resource_id = ''/subscriptions/s1/vm1'',
       lu_resource_name = ''vm1'', lu_resource_region = ''westeurope'',
       lu_metric = ''Percentage CPU'', lu_average_usage = 2, lu_threshold = 10,
       lu_unit = ''Percent'', lu_stat_type = ''Average''\<rparr>]
     \<lparr>year = 2024, month = 5, day = 20\<rparr>
   = Inr \<lparr>db_reachable = True, db_low_usage_unique = False, db_azure_service_costs = [],
      db_azure_low_usage_resources =
        [(\<lparr>year = 2024, month = 5, day = 20\<rparr>,
          \<lparr>lu_service = ''virtualMachines'', lu_resource_id = ''/subscriptions/s1/vm1'',
           lu_resource_name = ''vm1'', lu_resource_region = ''westeurope'',
           lu_metric = ''Percentage CPU'', lu_average_usage = 2, lu_threshold = 10,
           lu_unit = ''Percent'', lu_stat_type = ''Average''\<rparr>)]\<rparr>
   \<and> insert_low_usage_resources
     \<lparr>db_reachable = True, db_low_usage_unique = False, db_azure_service_costs = [],
      db_azure_low_usage_resources =
        [(\<lparr>year = 2024, month = 5, day = 20\<rparr>,
          \<lparr>lu_service = ''virtualMachines'', lu_resource_id = ''/subscriptions/s1/vm1'',
           lu_resource_name = ''vm1'', lu_resource_region = ''westeurope'',
           lu_metric = ''Percentage CPU'', lu_average_usage = 2, lu_threshold = 10,
           lu_unit = ''Percent'', lu_stat_type = ''Average''\<rparr>)]\<rparr>
     [\<lparr>lu_service = ''virtualMachines'', lu_resource_id = ''/subscriptions/s1/vm1'',
       lu_resource_name = ''vm1'', lu_resource_region = ''westeurope'',
       lu_metric = ''Percentage CPU'', lu_average_usage = 2, lu_threshold = 10,
       lu_unit = ''Percent'', lu_stat_type = ''Average''\<rparr>]
     \<lparr>year = 2024, month = 5, day = 20\<rparr>
   = Inr \<lparr>db_reachable = True, db_low_usage_unique = False, db_azure_service_costs = [],
      db_azure_low_usage_resources =
        [(\<lparr>year = 2024, month = 5, day = 20\<rparr>,
          \<lparr>lu_service = ''virtualMachines'', lu_resource_id = ''/subscriptions/s1/vm1'',
           lu_resource_name = ''vm1'', lu_resource_region = ''westeurope'',
           lu_metric = ''Percentage CPU'', lu_average_usage = 2, lu_threshold = 10,
           lu_unit = ''Percent'', lu_stat_type = ''Average''\<rparr>),
         (\<lparr>year = 2024, month = 5, day = 20\<rparr>,
          \<lparr>lu_service = ''virtualMachines'', lu_resource_id = ''/subscriptions/s1/vm1'',
           lu_resource_name = ''vm1'', lu_resource_region = ''westeurope'',
           lu_metric = ''Percentage CPU'', lu_average_usage = 2, lu_threshold = 10,
           lu_unit = ''Percent'', lu_stat_type = ''Average''\<rparr>)]\<rparr>
   \<and> insert_low_usage_resources
     \<lparr>db_reachable = True, db_low_usage_unique = True, db_azure_service_costs = [],
      db_azure_low_usage_resources =
        [(\<lparr>year = 2024, month = 5, day = 20\<rparr>,
          \<lparr>lu_service = ''virtualMachines'', lu_resource_id = ''/subscriptions/s1/vm1'',
           lu_resource_name = ''vm1'', lu_resource_region = ''westeurope'',
           lu_metric = ''Percentage CPU'', lu_average_usage = 2, lu_threshold = 10,
           lu_unit = ''Percent'', lu_stat_type = ''Average''\<rparr>)]\<rparr>
     [\<lparr>lu_service = ''virtualMachines'', lu_resource_id = ''/subscriptions/s1/vm1'',
       lu_resource_name = ''vm1'', lu_resource_region = ''westeurope'',
       lu_metric = ''Percentage CPU'', lu_average_usage = 2, lu_threshold = 10,
       lu_unit = ''Percent'', lu_stat_type = ''Average''\<rparr>]
     \<lparr>year = 2024, month = 5, day = 20\<rparr>
   = Inl PostgreSQLConnectionError"
  by (simp add: insert_low_usage_resources_def execute_batch_insert_def sql_insert_def)

section \<open>Properties of the run orchestrator\<close>

lemma main_analysed:
  assumes "analyse env = Inr a"
  shows "out_raised (main env pg db) = None"
    and "out_analysis (main env pg db) = Some a"
    and "out_report (main env pg db) =
           Some (an_current_total_cost a, an_last_total_cost a,
                 length (an_low_usage_resources a), env_execution_time_ms env)"
    and "env_enable_postgres env \<Longrightarrow>
         out_postgres_results (main env pg db) = fst (store_results env pg a db)"
  using assms by (simp_all add: main_def split: prod.splits)

text \<open>
  C9. Once the analysis has been computed and storage is enabled, whatever the
  persistence operations do, the run raises nothing, keeps the values it computed and
  reports the two totals and the number of findings; and an error at any step of the
  storage phase (building the helper, the connection test, the insert of the current
  month, the insert of the last month, the insert of the run record) is recorded as the
  status \<open>failed\<close> with that error.
\<close>

theorem persistence_failure_is_confined:
  assumes "analyse env = Inr a" and "env_enable_postgres env"
  shows "out_raised (main env pg db) = None
     \<and> out_analysis (main env pg db) = Some a
     \<and> out_report (main env pg db) =
           Some (an_current_total_cost a, an_last_total_cost a,
                 length (an_low_usage_resources a), env_execution_time_ms env)
     \<and> (pg_create_postgres_helper pg = Some e \<longrightarrow>
          out_postgres_results (main env pg db) = Failed e)
     \<and> (pg_create_postgres_helper pg = None \<and> \<not> pg_test_connection pg db \<longrightarrow>
          out_postgres_results (main env pg db) = Failed PostgreSQLConnectionError)
     \<and> (pg_create_postgres_helper pg = None \<and> pg_test_connection pg db
          \<and> fst (pg_insert_azure_cost_data pg db (an_cost_data_service a)
                    (an_cost_data_region a) (an_cost_data_region_service a)
                    (an_low_usage_resources a) (env_today env) ''current'') = Inl e \<longrightarrow>
          out_postgres_results (main env pg db) = Failed e)
     \<and> (pg_create_postgres_helper pg = None \<and> pg_test_connection pg db
          \<and> pg_insert_azure_cost_data pg db (an_cost_data_service a)
                    (an_cost_data_region a) (an_cost_data_region_service a)
                    (an_low_usage_resources a) (env_today env) ''current'' = (Inr counts, db1)
          \<and> fst (pg_insert_azure_cost_data pg db1 (an_last_month_cost_data_service a)
                    (an_last_month_cost_data_region a)
                    (an_last_month_cost_data_region_service a)
                    (get_comprehensive_low_usage_resources (env_monitor_client env)
                       (env_resource_client env) (an_subscription_id a)
                       (an_last_month_start a) (an_last_month_end a))
                    (env_today env) ''last_month'') = Inl e \<longrightarrow>
          out_postgres_results (main env pg db) = Failed e)
     \<and> (pg_create_postgres_helper pg = None \<and> pg_test_connection pg db
          \<and> pg_insert_azure_cost_data pg db (an_cost_data_service a)
                    (an_cost_data_region a) (an_cost_data_region_service a)
                    (an_low_usage_resources a) (env_today env) ''current'' = (Inr counts, db1)
          \<and> pg_insert_azure_cost_data pg db1 (an_last_month_cost_data_service a)
                    (an_last_month_cost_data_region a)
                    (an_last_month_cost_data_region_service a)
                    (get_comprehensive_low_usage_resources (env_monitor_client env)
                       (env_resource_client env) (an_subscription_id a)
                       (an_last_month_start a) (an_last_month_end a))
                    (env_today env) ''last_month'' = (Inr counts2, db2)
          \<and> fst (pg_insert_monitoring_run pg db2
                    \<lparr>rm_run_date = env_today env,
                     rm_start_date = an_start_date a,
                     rm_end_date = an_end_date a,
                     rm_last_month_start = an_last_month_start a,
                     rm_last_month_end = an_last_month_end a,
                     rm_total_current_cost = an_current_total_cost a,
                     rm_total_last_month_cost = an_last_total_cost a,
                     rm_low_usage_count = length (an_low_usage_resources a),
                     rm_execution_status = ''success'',
                     rm_error_message = None,
                     rm_execution_time_ms = env_execution_time_ms env\<rparr>) = Inl e \<longrightarrow>
          out_postgres_results (main env pg db) = Failed e)"
proof -
  note m = main_analysed [OF assms(1), of pg db]
  have s: "out_postgres_results (main env pg db) = fst (store_results env pg a db)"
    using m(4) assms(2) by simp
  have 1: "pg_create_postgres_helper pg = Some e \<longrightarrow>
          out_postgres_results (main env pg db) = Failed e"
    unfolding s by (simp add: store_results_def)
  have 2: "pg_create_postgres_helper pg = None \<and> \<not> pg_test_connection pg db \<longrightarrow>
          out_postgres_results (main env pg db) = Failed PostgreSQLConnectionError"
    unfolding s by (simp add: store_results_def)
  have 3: "pg_create_postgres_helper pg = None \<and> pg_test_connection pg db
          \<and> fst (pg_insert_azure_cost_data pg db (an_cost_data_service a)
                    (an_cost_data_region a) (an_cost_data_region_service a)
                    (an_low_usage_resources a) (env_today env) ''current'') = Inl e \<longrightarrow>
          out_postgres_results (main env pg db) = Failed e"
    unfolding s by (auto simp: store_results_def split: prod.splits sum.splits)
  have 4: "pg_create_postgres_helper pg = None \<and> pg_test_connection pg db
          \<and> pg_insert_azure_cost_data pg db (an_cost_data_service a)
                    (an_cost_data_region a) (an_cost_data_region_service a)
                    (an_low_usage_resources a) (env_today env) ''current'' = (Inr counts, db1)
          \<and> fst (pg_insert_azure_cost_data pg db1 (an_last_month_cost_data_service a)
                    (an_last_month_cost_data_region a)
                    (an_last_month_cost_data_region_service a)
                    (get_comprehensive_low_usage_resources (env_monitor_client env)
                       (env_resource_client env) (an_subscription_id a)
                       (an_last_month_start a) (an_last_month_end a))
                    (env_today env) ''last_month'') = Inl e \<longrightarrow>
          out_postgres_results (main env pg db) = Failed e"
    unfolding s by (auto simp: store_results_def Let_def split: prod.splits sum.splits)
  have 5: "pg_create_postgres_helper pg = None \<and> pg_test_connection pg db
          \<and> pg_insert_azure_cost_data pg db (an_cost_data_service a)
                    (an_cost_data_region a) (an_cost_data_region_service a)
                    (an_low_usage_resources a) (env_today env) ''current'' = (Inr counts, db1)
          \<and> pg_insert_azure_cost_data pg db1 (an_last_month_cost_data_service a)
                    (an_last_month_cost_data_region a)
                    (an_last_month_cost_data_region_service a)
                    (get_comprehensive_low_usage_resources (env_monitor_client env)
                       (env_resource_client env) (an_subscription_id a)
                       (an_last_month_start a) (an_last_month_end a))
                    (env_today env) ''last_month'' = (Inr counts2, db2)
          \<and> fst (pg_insert_monitoring_run pg db2
                    \<lparr>rm_run_date = env_today env,
                     rm_start_date = an_start_date a,
                     rm_end_date = an_end_date a,
                     rm_last_month_start = an_last_month_start a,
                     rm_last_month_end = an_last_month_end a,
                     rm_total_current_cost = an_current_total_cost a,
                     rm_total_last_month_cost = an_last_total_cost a,
                     rm_low_usage_count = length (an_low_usage_resources a),
                     rm_execution_status = ''success'',
                     rm_error_message = None,
                     rm_execution_time_ms = env_execution_time_ms env\<rparr>) = Inl e \<longrightarrow>
          out_postgres_results (main env pg db) = Failed e"
    unfolding s by (auto simp: store_results_def Let_def split: prod.splits sum.splits)
  from m(1,2,3) 1 2 3 4 5 show ?thesis by blast
qed

text \<open>
  C9, at a run whose service costs are 12.5 and 0 and whose database fails the
  connection test.
\<close>

theorem persistence_failure_is_confined_witness:
  "out_raised (main
      \<lparr>env_subscription_id = Some ''s1'', env_azure_scope = None,
       env_enable_postgres = True, env_today = \<lparr>year = 2024, month = 5, day = 20\<rparr>,
       env_sdk_setup = None,
       env_cost_client = (\<lambda>scope start_date end_date group_by.
          if group_by = [(''Dimension'', ''ServiceName'')]
          then Inr (Some [[PStr ''2024-05-01'', PStr ''VM'', PFloat 12.5 ''12.5''],
                          [PStr ''2024-05-02'', PStr ''VM'', PInt 0]])
          else Inl OtherError),
       env_monitor_client = (\<lambda>rid ts mn agg. Inl OtherError),
       env_resource_client = Paged [] None,
       env_execution_time_ms = 1500\<rparr>
      \<lparr>pg_create_postgres_helper = None,
       pg_test_connection = (\<lambda>db. False),
       pg_insert_azure_cost_data = (\<lambda>db s r rs l d m. (Inl PostgreSQLConnectionError, db)),
       pg_insert_monitoring_run = (\<lambda>db m. (Inl PostgreSQLConnectionError, db)),
       pg_cleanup_old_data = (\<lambda>db n. (Inl PostgreSQLConnectionError, db))\<rparr>
      ()) = None
   \<and> out_postgres_results (main
      \<lparr>env_subscription_id = Some ''s1'', env_azure_scope = None,
       env_enable_postgres = True, env_today = \<lparr>year = 2024, month = 5, day = 20\<rparr>,
       env_sdk_setup = None,
       env_cost_client = (\<lambda>scope start_date end_date group_by.
          if group_by = [(''Dimension'', ''ServiceName'')]
          then Inr (Some [[PStr ''2024-05-01'', PStr ''VM'', PFloat 12.5 ''12.5''],
                          [PStr ''2024-05-02'', PStr ''VM'', PInt 0]])
          else Inl OtherError),
       env_monitor_client = (\<lambda>rid ts mn agg. Inl OtherError),
       env_resource_client = Paged [] None,
       env_execution_time_ms = 1500\<rparr>
      \<lparr>pg_create_postgres_helper = None,
       pg_test_connection = (\<lambda>db. False),
       pg_insert_azure_cost_data = (\<lambda>db s r rs l d m. (Inl PostgreSQLConnectionError, db)),
       pg_insert_monitoring_run = (\<lambda>db m. (Inl PostgreSQLConnectionError, db)),
       pg_cleanup_old_data = (\<lambda>db n. (Inl PostgreSQLConnectionError, db))\<rparr>
      ()) = Failed PostgreSQLConnectionError
   \<and> out_report (main
      \<lparr>env_subscription_id = Some ''s1'', env_azure_scope = None,
       env_enable_postgres = True, env_today = \<lparr>year = 2024, month = 5, day = 20\<rparr>,
       env_sdk_setup = None,
       env_cost_client = (\<lambda>scope start_date end_date group_by.
          if group_by = [(''Dimension'', ''ServiceName'')]
          then Inr (Some [[PStr ''2024-05-01'', PStr ''VM'', PFloat 12.5 ''12.5''],
                          [PStr ''2024-05-02'', PStr ''VM'', PInt 0]])
          else Inl OtherError),
       env_monitor_client = (\<lambda>rid ts mn agg. Inl OtherError),
       env_resource_client = Paged [] None,
       env_execution_time_ms = 1500\<rparr>
      \<lparr>pg_create_postgres_helper = None,
       pg_test_connection = (\<lambda>db. False),
       pg_insert_azure_cost_data = (\<lambda>db s r rs l d m. (Inl PostgreSQLConnectionError, db)),
       pg_insert_monitoring_run = (\<lambda>db m. (Inl PostgreSQLConnectionError, db)),
       pg_cleanup_old_data = (\<lambda>db n. (Inl PostgreSQLConnectionError, db))\<rparr>
      ()) = Some (12.5, 12.5, 0, 1500)"
proof -
  let ?env = "\<lparr>env_subscription_id = Some ''s1'', env_azure_scope = None,
       env_enable_postgres = True, env_today = \<lparr>year = 2024, month = 5, day = 20\<rparr>,
       env_sdk_setup = None,
       env_cost_client = (\<lambda>scope start_date end_date group_by.
          if group_by = [(''Dimension'', ''ServiceName'')]
          then Inr (Some [[PStr ''2024-05-01'', PStr ''VM'', PFloat 12.5 ''12.5''],
                          [PStr ''2024-05-02'', PStr ''VM'', PInt 0]])
          else Inl OtherError),
       env_monitor_client = (\<lambda>rid ts mn agg. Inl OtherError),
       env_resource_client = Paged [] None,
       env_execution_time_ms = 1500\<rparr>"
  let ?pg = "\<lparr>pg_create_postgres_helper = None,
       pg_test_connection = (\<lambda>db :: unit. False),
       pg_insert_azure_cost_data = (\<lambda>(db :: unit) (s :: cost_row list) (r :: cost_row list)
          (rs :: cost_row list) (l :: low_usage list) (d :: pydate) (m :: string).
            (Inl PostgreSQLConnectionError :: pyexn + int \<times> int \<times> int \<times> int, db)),
       pg_insert_monitoring_run = (\<lambda>(db :: unit) (m :: run_metadata).
            (Inl PostgreSQLConnectionError :: pyexn + string option, db)),
       pg_cleanup_old_data = (\<lambda>(db :: unit) (n :: nat).
            (Inl PostgreSQLConnectionError :: pyexn + int, db))\<rparr>"
  let ?a = "\<lparr>an_subscription_id = ''s1'',
        an_start_date = \<lparr>year = 2024, month = 5, day = 1\<rparr>,
        an_end_date = \<lparr>year = 2024, month = 5, day = 20\<rparr>,
        an_last_month_start = \<lparr>year = 2024, month = 4, day = 1\<rparr>,
        an_last_month_end = \<lparr>year = 2024, month = 4, day = 30\<rparr>,
        an_cost_data_service =
          [SingleDim (Some ''2024-05-01'') ''VM'' (25 / 2),
           SingleDim (Some ''2024-05-02'') ''VM'' 0],
        an_cost_data_region = [], an_cost_data_region_service = [],
        an_last_month_cost_data_service =
          [SingleDim (Some ''2024-05-01'') ''VM'' (25 / 2),
           SingleDim (Some ''2024-05-02'') ''VM'' 0],
        an_last_month_cost_data_region = [],
        an_last_month_cost_data_region_service = [],
        an_low_usage_resources = [], an_current_total_cost = 25 / 2,
        an_last_total_cost = 25 / 2\<rparr>"
  have a: "analyse ?env = Inr ?a"
    by (simp add: analyse_def date_replace_def valid_date_def days_in_month_def is_leap_def
        date_add_day_def last_month_window_def get_cost_breakdown_by_service_def
        get_cost_breakdown_by_region_def get_cost_breakdown_by_region_and_service_def
        get_cost_data_def normalizer_defs get_comprehensive_low_usage_resources_def
        get_all_resources_def Let_def)
  have p: "env_enable_postgres ?env" by simp
  from persistence_failure_is_confined [OF a p, where pg = ?pg and db = "()"]
  show ?thesis by simp
qed

end
